theory Spec2Isabelle
  imports Main "HOL-Library.Word"
begin

section \<open>Go values as the envelope sees them\<close>

text \<open>
  A Go \<open>error\<close> is an interface value: \<open>nil\<close> is \<open>None\<close>, a non-nil error is
  \<open>Some msg\<close> where \<open>msg\<close> is what its \<open>Error()\<close> method returns (and what the verb
  \<open>%v\<close> prints).
\<close>

type_synonym error = "string option"

text \<open>
  The run-time panics that the functions of \<open>common_op.go\<close> can raise themselves:
  \<open>reflect.Value.FieldByName\<close> panics when the Kind of its receiver is not Struct, and a
  slice expression \<open>s[a:b]\<close> panics when its bounds are out of order or out of range.
\<close>

datatype panic = FieldByNameOnNonStruct | SliceBoundsOutOfRange

text \<open>The values a struct field of an op can hold, as far as \<open>%v\<close> has to print them.\<close>

datatype fieldval = U64 "64 word" | Str string

text \<open>
  What \<open>reflect.ValueOf(o.op)\<close> yields for the dynamic value stored in the interface
  \<open>o.op\<close>: either a struct of a named type (its type name as \<open>Type().String()\<close> prints it,
  for example \<open>fuseops.GetInodeAttributesOp\<close>, and the fields that \<open>FieldByName\<close> can
  see), or a pointer to such a value.
\<close>

datatype Value = StructValue string "(string \<times> fieldval) list" | PtrValue Value

text \<open>\<open>v.Type().String()\<close>: a pointer type prints as \<open>*\<close> followed by its element type.\<close>

fun TypeString :: "Value \<Rightarrow> string" where
  "TypeString (StructValue n fs) = n"
| "TypeString (PtrValue v) = CHR ''*'' # TypeString v"

text \<open>
  \<open>v.FieldByName(name)\<close>: it panics if the Kind of \<open>v\<close> is not Struct, as it is for a
  pointer; on a struct it returns the field, or the zero Value (for which \<open>IsValid()\<close>
  is false, here \<open>None\<close>) when there is no field of that name.
\<close>

fun FieldByName :: "Value \<Rightarrow> string \<Rightarrow> panic + fieldval option" where
  "FieldByName (StructValue n fs) name = Inr (map_of fs name)"
| "FieldByName (PtrValue v) name = Inl FieldByNameOnNonStruct"

subsection \<open>Strings and formatting\<close>

definition HasPrefix :: "string \<Rightarrow> string \<Rightarrow> bool" where
  "HasPrefix s p = (length p \<le> length s \<and> take (length p) s = p)"

definition HasSuffix :: "string \<Rightarrow> string \<Rightarrow> bool" where
  "HasSuffix s x = (length x \<le> length s \<and> drop (length s - length x) s = x)"

text \<open>The slice expression \<open>s[a:b]\<close> with its bounds check.\<close>

definition slice :: "string \<Rightarrow> nat \<Rightarrow> nat \<Rightarrow> panic + string" where
  "slice s a b =
     (if a \<le> b \<and> b \<le> length s then Inr (take (b - a) (drop a s))
      else Inl SliceBoundsOutOfRange)"

text \<open>Decimal digits of an unsigned integer, as \<open>%v\<close> prints a \<open>uint64\<close>.\<close>

function formatUint :: "nat \<Rightarrow> string" where
  "formatUint n =
     (if n < 10 then [''0123456789'' ! n]
      else formatUint (n div 10) @ [''0123456789'' ! (n mod 10)])"
  by pat_completeness auto
termination
  by (relation "measure (\<lambda>n. n)") auto

declare formatUint.simps [simp del]

fun formatV :: "fieldval \<Rightarrow> string" where
  "formatV (U64 w) = formatUint (unat w)"
| "formatV (Str s) = s"

text \<open>
  \<open>fmt.Sprintf\<close> for the two verbs this file uses, \<open>%s\<close> and \<open>%v\<close>, on operands that
  are already printed in their default format. A verb with no operand left prints Go's
  \<open>%!v(MISSING)\<close> marker. Every call below passes exactly as many operands as its format
  has verbs.
\<close>

fun Sprintf :: "string \<Rightarrow> string list \<Rightarrow> string" where
  "Sprintf [] args = []"
| "Sprintf [c] args = [c]"
| "Sprintf (c # d # fs) args =
     (if c = CHR ''%'' \<and> (d = CHR ''s'' \<or> d = CHR ''v'') then
        (case args of
           [] \<Rightarrow> ''%!'' @ [d] @ ''(MISSING)'' @ Sprintf fs []
         | a # as \<Rightarrow> a @ Sprintf fs as)
      else c # Sprintf (d # fs) args)"

section \<open>The operation envelope\<close>

text \<open>
  The collaborators of the envelope (the trace provider, the reply channel, the log sinks,
  the base completion callback) are Go functions with side effects. Each is a function on
  a world \<open>'w\<close> that returns the changed world; the envelope threads the world through its
  calls in program order.
\<close>

text \<open>
  \<open>internalOp\<close>: the op in which the envelope is embedded. \<open>ValueOf\<close> is what
  \<open>reflect.ValueOf\<close> sees of it, \<open>kernelResponse\<close> its encoded success response, and
  \<open>respond\<close> the method \<open>Respond\<close> calls on the success path; it hands back the
  delivery error of the reply channel, which the call statement \<open>o.op.respond()\<close> drops.
\<close>

record 'w internalOp =
  ValueOf :: Value
  kernelResponse :: "8 word list"
  respond :: "'w \<Rightarrow> error \<times> 'w"

text \<open>
  \<open>fuseshim.Request\<close>, the kernel's request handle: the unique ID in its header and
  the method that sends an error reply for it.
\<close>

record 'w Request =
  ID :: "64 word"
  RespondError :: "error \<Rightarrow> 'w \<Rightarrow> error \<times> 'w"

text \<open>\<open>context.Context\<close>, as far as the envelope touches it: the trace spans attached.\<close>

datatype Context = Background | WithSpan string Context

text \<open>
  \<open>commonOp\<close>. The struct declares \<open>ctx\<close>, \<open>op\<close>, \<open>fuseID\<close>, \<open>sendReply\<close>,
  \<open>debugLog\<close> and \<open>errorLogger\<close>; its methods also read and write \<open>bazilReq\<close> and
  \<open>finished\<close>. A nil function or logger is \<open>None\<close>. \<open>errorLogger\<close> holds the logger's
  \<open>Printf\<close>.
\<close>

record 'w commonOp =
  ctx :: Context
  op :: "'w internalOp"
  fuseID :: "64 word"
  sendReply :: "64 word \<Rightarrow> 8 word list \<Rightarrow> 'w \<Rightarrow> error \<times> 'w"
  bazilReq :: "'w Request"
  debugLog :: "(int \<Rightarrow> string \<Rightarrow> string list \<Rightarrow> 'w \<Rightarrow> 'w) option"
  errorLogger :: "(string \<Rightarrow> string list \<Rightarrow> 'w \<Rightarrow> 'w) option"
  finished :: "error \<Rightarrow> 'w \<Rightarrow> 'w"

subsection \<open>ShortDesc\<close>

definition prefix :: string where
  "prefix = ''*fuseops.''"

definition suffix :: string where
  "suffix = ''Op''"

text \<open>
  The first half of \<open>ShortDesc\<close>: the type name, with prefix and suffix cut off when it
  has both.
\<close>

definition opName :: "Value \<Rightarrow> panic + string" where
  "opName v =
     (let n = TypeString v in
      if HasPrefix n prefix \<and> HasSuffix n suffix
      then slice n (length prefix) (length n - length suffix)
      else Inr n)"

text \<open>
  \<open>ShortDesc\<close>. The named result \<open>desc\<close> starts as the empty string and is assigned
  only inside the \<open>if\<close> on \<open>f.IsValid()\<close>.
\<close>

definition ShortDesc :: "'w commonOp \<Rightarrow> panic + string" where
  "ShortDesc env =
     (let v = ValueOf (op env) in
      case opName v of
        Inl p \<Rightarrow> Inl p
      | Inr n \<Rightarrow>
          (case FieldByName v ''Inode'' of
             Inl p \<Rightarrow> Inl p
           | Inr None \<Rightarrow> Inr ''''
           | Inr (Some f) \<Rightarrow> Inr (Sprintf ''%s(inode=%v)'' [n, formatV f])))"

subsection \<open>init\<close>

text \<open>
  \<open>init\<close> is a method on a pointer receiver: \<open>env0\<close> is the envelope before the call
  and the result the envelope after it. \<open>StartSpan\<close> is \<open>reqtrace.StartSpan\<close>, which
  returns the context with the span attached and the span's report function.
  \<open>o.op.ShortDesc()\<close> is the method the op inherits from the envelope embedded in it,
  whose \<open>op\<close> field is that same op; when it panics, \<open>init\<close> panics before the span is
  opened.
\<close>

definition init ::
  "(Context \<Rightarrow> string \<Rightarrow> 'w \<Rightarrow> (Context \<times> (error \<Rightarrow> 'w \<Rightarrow> 'w)) \<times> 'w) \<Rightarrow>
   'w commonOp \<Rightarrow> Context \<Rightarrow> 'w internalOp \<Rightarrow> 'w Request \<Rightarrow>
   (int \<Rightarrow> string \<Rightarrow> string list \<Rightarrow> 'w \<Rightarrow> 'w) option \<Rightarrow>
   (string \<Rightarrow> string list \<Rightarrow> 'w \<Rightarrow> 'w) option \<Rightarrow>
   (error \<Rightarrow> 'w \<Rightarrow> 'w) \<Rightarrow> 'w \<Rightarrow> (panic + 'w commonOp) \<times> 'w" where
  "init StartSpan env0 ctx' op' bazilReq' debugLog' errorLogger' finished' w =
     (let env1 = env0\<lparr>ctx := ctx', op := op', bazilReq := bazilReq',
                       debugLog := debugLog', errorLogger := errorLogger',
                       finished := finished'\<rparr>
      in case ShortDesc env1 of
           Inl p \<Rightarrow> (Inl p, w)
         | Inr desc \<Rightarrow>
             (case StartSpan (ctx env1) desc w of
                ((ctx2, reportForTrace), w') \<Rightarrow>
                  (let prevFinish = finished env1
                   in (Inr (env1\<lparr>ctx := ctx2,
                                  finished := (\<lambda>err w. prevFinish err (reportForTrace err w))\<rparr>),
                       w'))))"

subsection \<open>Logf and Respond\<close>

definition Logf :: "'w commonOp \<Rightarrow> string \<Rightarrow> string list \<Rightarrow> 'w \<Rightarrow> 'w" where
  "Logf env format v w =
     (case debugLog env of
        None \<Rightarrow> w
      | Some dl \<Rightarrow> dl 2 format v w)"

text \<open>
  \<open>Respond\<close> has no result: it either returns (\<open>Inr ()\<close>) or panics. The operands of a
  log call are evaluated before the call, so a panic of \<open>ShortDesc\<close> leaves \<open>Respond\<close>
  before the line is written and before the reply is sent. The values that
  \<open>o.op.respond()\<close> and \<open>o.bazilReq.RespondError(err)\<close> hand back are dropped.
\<close>

definition Respond :: "'w commonOp \<Rightarrow> error \<Rightarrow> 'w \<Rightarrow> (panic + unit) \<times> 'w" where
  "Respond env err w0 =
     (let w1 = finished env err w0 in
      case err of
        None \<Rightarrow> (Inr (), snd (respond (op env) w1))
      | Some msg \<Rightarrow>
          (case (if debugLog env \<noteq> None
                 then (case ShortDesc env of
                         Inl p \<Rightarrow> (Inl p, w1)
                       | Inr desc \<Rightarrow> (Inr (), Logf env ''-> (%s) error: %v'' [desc, msg] w1))
                 else (Inr (), w1)) of
             (Inl p, w2) \<Rightarrow> (Inl p, w2)
           | (Inr u, w2) \<Rightarrow>
               (case (case errorLogger env of
                        None \<Rightarrow> (Inr (), w2)
                      | Some printf \<Rightarrow>
                          (case ShortDesc env of
                             Inl p \<Rightarrow> (Inl p, w2)
                           | Inr desc \<Rightarrow> (Inr (), printf ''(%s) error: %v'' [desc, msg] w2))) of
                  (Inl p, w3) \<Rightarrow> (Inl p, w3)
                | (Inr u', w3) \<Rightarrow> (Inr (), snd (RespondError (bazilReq env) err w3)))))"

text \<open>A sequence of \<open>Respond\<close> calls on one envelope, stopping at the first panic.\<close>

fun RespondAll :: "'w commonOp \<Rightarrow> error list \<Rightarrow> 'w \<Rightarrow> (panic + unit) \<times> 'w" where
  "RespondAll env [] w = (Inr (), w)"
| "RespondAll env (err # errs) w =
     (case Respond env err w of
        (Inl p, w') \<Rightarrow> (Inl p, w')
      | (Inr u, w') \<Rightarrow> RespondAll env errs w')"

section \<open>Recording collaborators\<close>

text \<open>
  To count and order what the envelope does to its collaborators, the world is the list of
  their invocations in the order they happened, together with the state of the kernel
  connection.
\<close>

datatype payload = SuccessBytes "8 word list" | ErrorCode string

datatype event =
    SpanOpened string
  | SpanReported error
  | BaseFinished error
  | DebugLine int string
  | ErrorLine string
  | ReplySent "64 word" payload bool

record world =
  events :: "event list"
  connected :: bool

definition emit :: "event \<Rightarrow> world \<Rightarrow> world" where
  "emit e w = w\<lparr>events := events w @ [e]\<rparr>"

text \<open>
  Modelled from the spec: the reply channel (the methods of \<open>fuseshim.Request\<close> and the
  \<open>respond\<close> method of each op) is not part of the two source files. It accepts a request
  identifier and an encoded response, and may fail to deliver, here when the connection
  is gone; \<open>ReplySent\<close> records the submission and whether it was delivered.
\<close>

definition send :: "64 word \<Rightarrow> payload \<Rightarrow> world \<Rightarrow> error \<times> world" where
  "send rid pl w =
     ((if connected w then None else Some ''ENOTCONN''),
      emit (ReplySent rid pl (connected w)) w)"

text \<open>
  Modelled from the spec: an op's \<open>respond\<close> encodes its success response and submits the
  bytes with the request identifier; \<open>RespondError\<close> submits the error under the same
  identifier.
\<close>

definition newOp :: "Value \<Rightarrow> 8 word list \<Rightarrow> 64 word \<Rightarrow> world internalOp" where
  "newOp v bytes rid =
     \<lparr>ValueOf = v, kernelResponse = bytes, respond = send rid (SuccessBytes bytes)\<rparr>"

definition errorPayload :: "error \<Rightarrow> payload" where
  "errorPayload err = (case err of None \<Rightarrow> ErrorCode [] | Some msg \<Rightarrow> ErrorCode msg)"

definition newRequest :: "64 word \<Rightarrow> world Request" where
  "newRequest rid = \<lparr>ID = rid, RespondError = (\<lambda>err. send rid (errorPayload err))\<rparr>"

text \<open>
  Modelled from the spec: the trace provider opens a span with the given label and returns
  the completion function of that span.
\<close>

definition recStartSpan ::
  "Context \<Rightarrow> string \<Rightarrow> world \<Rightarrow> (Context \<times> (error \<Rightarrow> world \<Rightarrow> world)) \<times> world" where
  "recStartSpan c desc w =
     ((WithSpan desc c, (\<lambda>err. emit (SpanReported err))), emit (SpanOpened desc) w)"

definition recFinished :: "error \<Rightarrow> world \<Rightarrow> world" where
  "recFinished err = emit (BaseFinished err)"

text \<open>The two sinks write the formatted line; a sink that is switched off is nil.\<close>

definition recDebugLog :: "bool \<Rightarrow> (int \<Rightarrow> string \<Rightarrow> string list \<Rightarrow> world \<Rightarrow> world) option" where
  "recDebugLog on =
     (if on then Some (\<lambda>depth format v. emit (DebugLine depth (Sprintf format v))) else None)"

definition recErrorLogger :: "bool \<Rightarrow> (string \<Rightarrow> string list \<Rightarrow> world \<Rightarrow> world) option" where
  "recErrorLogger on =
     (if on then Some (\<lambda>format v. emit (ErrorLine (Sprintf format v))) else None)"

text \<open>The zero value of the struct, on which \<open>init\<close> is called.\<close>

definition zeroCommonOp :: "world commonOp" where
  "zeroCommonOp =
     \<lparr>ctx = Background,
      op = \<lparr>ValueOf = StructValue [] [], kernelResponse = [], respond = (\<lambda>w. (None, w))\<rparr>,
      fuseID = 0,
      sendReply = (\<lambda>rid bytes w. (None, w)),
      bazilReq = \<lparr>ID = 0, RespondError = (\<lambda>err w. (None, w))\<rparr>,
      debugLog = None,
      errorLogger = None,
      finished = (\<lambda>err w. w)\<rparr>"

text \<open>
  The dispatcher's construction of an envelope for the request \<open>rid\<close> around an op, with
  each sink switched on or off.
\<close>

definition newEnvelope ::
  "Value \<Rightarrow> 8 word list \<Rightarrow> 64 word \<Rightarrow> bool \<Rightarrow> bool \<Rightarrow> world \<Rightarrow> (panic + world commonOp) \<times> world" where
  "newEnvelope v bytes rid dbg elog w =
     init recStartSpan zeroCommonOp Background (newOp v bytes rid) (newRequest rid)
       (recDebugLog dbg) (recErrorLogger elog) recFinished w"

text \<open>What a call added to the record.\<close>

definition added :: "world \<Rightarrow> world \<Rightarrow> event list" where
  "added w w' = drop (length (events w)) (events w')"

fun isReply :: "event \<Rightarrow> bool" where
  "isReply (ReplySent rid pl ok) = True"
| "isReply e = False"

fun isSpanReport :: "event \<Rightarrow> bool" where
  "isSpanReport (SpanReported err) = True"
| "isSpanReport e = False"

fun isDebugLine :: "event \<Rightarrow> bool" where
  "isDebugLine (DebugLine depth l) = True"
| "isDebugLine e = False"

fun isErrorLine :: "event \<Rightarrow> bool" where
  "isErrorLine (ErrorLine l) = True"
| "isErrorLine e = False"

definition isLogLine :: "event \<Rightarrow> bool" where
  "isLogLine e = (isDebugLine e \<or> isErrorLine e)"

text \<open>The lines \<open>Respond\<close> writes for a non-nil error with message \<open>msg\<close>.\<close>

definition errorLines :: "bool \<Rightarrow> bool \<Rightarrow> string \<Rightarrow> string \<Rightarrow> event list" where
  "errorLines dbg elog desc msg =
     (if dbg then [DebugLine 2 (''-> ('' @ desc @ '') error: '' @ msg)] else []) @
     (if elog then [ErrorLine (''('' @ desc @ '') error: '' @ msg)] else [])"

text \<open>The reply for an error value: the op's encoded response for nil, an error code otherwise.\<close>

definition replyFor :: "8 word list \<Rightarrow> error \<Rightarrow> payload" where
  "replyFor bytes err = (case err of None \<Rightarrow> SuccessBytes bytes | Some msg \<Rightarrow> ErrorCode msg)"

text \<open>Everything one \<open>Respond\<close> call adds to the record, in order.\<close>

definition respondEvents ::
  "string \<Rightarrow> 8 word list \<Rightarrow> 64 word \<Rightarrow> bool \<Rightarrow> bool \<Rightarrow> bool \<Rightarrow> error \<Rightarrow> event list" where
  "respondEvents desc bytes rid dbg elog up err =
     [SpanReported err, BaseFinished err] @
     (case err of None \<Rightarrow> [] | Some msg \<Rightarrow> errorLines dbg elog desc msg) @
     [ReplySent rid (replyFor bytes err) up]"

text \<open>Worlds and ops used as concrete inputs.\<close>

definition idle :: world where
  "idle = \<lparr>events = [], connected = True\<rparr>"

definition gone :: world where
  "gone = \<lparr>events = [], connected = False\<rparr>"

definition getattrStruct :: Value where
  "getattrStruct = StructValue ''fuseops.GetInodeAttributesOp'' [(''Inode'', U64 42)]"

definition initStruct :: Value where
  "initStruct = StructValue ''fuseops.InitOp'' [(''Flags'', U64 0)]"

definition demoEnvelope :: "bool \<Rightarrow> bool \<Rightarrow> world commonOp" where
  "demoEnvelope dbg elog = projr (fst (newEnvelope getattrStruct [1, 2] 7 dbg elog idle))"

text \<open>
  An envelope holds the recording collaborators for the request \<open>rid\<close> when its op, its
  request handle and its sinks are the ones above and its completion callback is the
  wrapper \<open>init\<close> builds from them. Nothing is asked of the op's value.
\<close>

definition wired ::
  "world commonOp \<Rightarrow> Value \<Rightarrow> 8 word list \<Rightarrow> 64 word \<Rightarrow> bool \<Rightarrow> bool \<Rightarrow> bool" where
  "wired env v bytes rid dbg elog =
     (op env = newOp v bytes rid \<and> bazilReq env = newRequest rid \<and>
      debugLog env = recDebugLog dbg \<and> errorLogger env = recErrorLogger elog \<and>
      finished env = (\<lambda>err w. recFinished err (emit (SpanReported err) w)))"

text \<open>
  An envelope around the op \<open>&fuseops.GetInodeAttributesOp{Inode: 42}\<close>, which the
  interface holds as a pointer, with the recording collaborators in its fields.
\<close>

definition pointerEnvelope :: "bool \<Rightarrow> bool \<Rightarrow> world commonOp" where
  "pointerEnvelope dbg elog =
     zeroCommonOp\<lparr>op := newOp (PtrValue getattrStruct) [1, 2] 7,
                  bazilReq := newRequest 7,
                  debugLog := recDebugLog dbg,
                  errorLogger := recErrorLogger elog,
                  finished := (\<lambda>err w. recFinished err (emit (SpanReported err) w))\<rparr>"

section \<open>The file-metadata matchers\<close>

text \<open>
  \<open>time.Time\<close>: an instant, in nanoseconds since January 1 of year 1 UTC, and the
  location it is shown in. The operator \<open>!=\<close> on two times compares the structs, so two
  times are equal only when both parts are. The times are wall-clock times, as a file
  system reports them.
\<close>

record Time =
  nanos :: int
  loc :: string

text \<open>\<open>time.Duration\<close> is an \<open>int64\<close> count of nanoseconds.\<close>

type_synonym Duration = "64 word"

definition minDuration :: Duration where
  "minDuration = word_of_int (- (2 ^ 63))"

definition maxDuration :: Duration where
  "maxDuration = word_of_int (2 ^ 63 - 1)"

text \<open>
  \<open>t.Sub(u)\<close>: the difference of the instants; when it does not fit into a Duration,
  the minimum or the maximum Duration is returned.
\<close>

definition Sub :: "Time \<Rightarrow> Time \<Rightarrow> Duration" where
  "Sub t u =
     (let d = nanos t - nanos u in
      if d < - (2 ^ 63) then minDuration
      else if 2 ^ 63 - 1 < d then maxDuration
      else word_of_int d)"

text \<open>
  \<open>os.FileInfo\<close>, as far as the matchers read it, and the value \<open>c\<close> handed to a
  matcher: a file-info value, or a value of some other type (with the name of that type).
\<close>

record 's FileInfo =
  ModTime :: Time
  Sys :: 's

datatype 's candidate = IsFileInfo "'s FileInfo" | Other string

text \<open>The errors the matchers return; \<open>nil\<close>, a match, is \<open>None\<close>.\<close>

datatype mismatch =
    WrongType string
  | MtimeOffBy Time Duration
  | BirthtimeOffBy Time Duration

text \<open>
  \<open>mtimeIsWithin\<close>. The comparisons and the negation are those of \<open>int64\<close>: \<open>-absDiff\<close>
  wraps around.
\<close>

definition mtimeIsWithin :: "'s candidate \<Rightarrow> Time \<Rightarrow> Duration \<Rightarrow> mismatch option" where
  "mtimeIsWithin c expected d =
     (case c of
        Other ty \<Rightarrow> Some (WrongType ty)
      | IsFileInfo fi \<Rightarrow>
          (let diff = Sub (ModTime fi) expected;
               absDiff = (if diff <s 0 then - diff else diff)
           in if \<not> (absDiff <s d) then Some (MtimeOffBy (ModTime fi) diff)
              else None))"

text \<open>A matcher is the predicate \<open>oglematchers.NewMatcher\<close> wraps.\<close>

definition MtimeIs :: "Time \<Rightarrow> 's candidate \<Rightarrow> mismatch option" where
  "MtimeIs expected = (\<lambda>c. mtimeIsWithin c expected 0)"

definition MtimeIsWithin :: "Time \<Rightarrow> Duration \<Rightarrow> 's candidate \<Rightarrow> mismatch option" where
  "MtimeIsWithin expected d = (\<lambda>c. mtimeIsWithin c expected d)"

text \<open>
  \<open>birthtimeIs\<close>. \<open>extractBirthtime\<close> is defined per platform, outside the two source
  files; it is a parameter here, with \<open>None\<close> for its result \<open>ok = false\<close>.
\<close>

definition birthtimeIs ::
  "('s \<Rightarrow> Time option) \<Rightarrow> 's candidate \<Rightarrow> Time \<Rightarrow> mismatch option" where
  "birthtimeIs extractBirthtime c expected =
     (case c of
        Other ty \<Rightarrow> Some (WrongType ty)
      | IsFileInfo fi \<Rightarrow>
          (case extractBirthtime (Sys fi) of
             Some sysBirthtime \<Rightarrow>
               (if sysBirthtime \<noteq> expected
                then Some (BirthtimeOffBy sysBirthtime (Sub sysBirthtime expected))
                else None)
           | None \<Rightarrow> None))"

definition BirthtimeIs ::
  "('s \<Rightarrow> Time option) \<Rightarrow> Time \<Rightarrow> 's candidate \<Rightarrow> mismatch option" where
  "BirthtimeIs extractBirthtime expected = (\<lambda>c. birthtimeIs extractBirthtime c expected)"

text \<open>Times used as concrete inputs: an instant and the instant \<open>2 ^ 63\<close> ns after it.\<close>

definition early :: Time where
  "early = \<lparr>nanos = 0, loc = ''UTC''\<rparr>"

definition late :: Time where
  "late = \<lparr>nanos = 2 ^ 63, loc = ''UTC''\<rparr>"

section \<open>Properties of ShortDesc\<close>

text \<open>A name that has both the prefix and the suffix is long enough for the slice.\<close>

lemma HasPrefix_HasSuffix_length:
  assumes "HasPrefix n prefix" "HasSuffix n suffix"
  shows "length prefix \<le> length n - length suffix"
proof -
  from assms(1) have "n = prefix @ drop (length prefix) n"
    by (metis HasPrefix_def append_take_drop_id)
  then obtain rest where n: "n = prefix @ rest" ..
  show ?thesis
  proof (cases rest)
    case Nil
    with assms(2) n show ?thesis
      by (simp add: HasSuffix_def prefix_def suffix_def)
  next
    case (Cons c rest')
    show ?thesis
    proof (cases rest')
      case Nil
      with assms(2) n Cons show ?thesis
        by (simp add: HasSuffix_def prefix_def suffix_def)
    next
      case (Cons d rest'')
      with n \<open>rest = c # rest'\<close> show ?thesis
        by (simp add: prefix_def suffix_def)
    qed
  qed
qed

text \<open>Cutting the name never panics.\<close>

lemma opName_returns: "\<exists>name. opName v = Inr name"
  using HasPrefix_HasSuffix_length [of "TypeString v"]
  by (auto simp: opName_def Let_def slice_def)

text \<open>
  On a pointer, which is what an op stored in the interface is whenever its type name
  starts with \<open>*\<close>, \<open>FieldByName\<close> panics and so does \<open>ShortDesc\<close>.
\<close>

lemma ShortDesc_pointer:
  assumes "ValueOf (op env) = PtrValue v"
  shows "ShortDesc env = Inl FieldByNameOnNonStruct"
  using opName_returns [of "PtrValue v"] assms
  by (auto simp: ShortDesc_def Let_def)

text \<open>On a struct without an \<open>Inode\<close> field the result is the empty string.\<close>

lemma ShortDesc_no_Inode:
  assumes "ValueOf (op env) = StructValue n fs" and "map_of fs ''Inode'' = None"
  shows "ShortDesc env = Inr []"
  using opName_returns [of "StructValue n fs"] assms
  by (auto simp: ShortDesc_def Let_def)

text \<open>On a struct with an \<open>Inode\<close> field the result is the name and the inode.\<close>

lemma ShortDesc_Inode:
  assumes "ValueOf (op env) = StructValue n fs" and "map_of fs ''Inode'' = Some f"
  shows "\<exists>name. opName (StructValue n fs) = Inr name \<and>
           ShortDesc env = Inr (name @ ''(inode='' @ formatV f @ '')'')"
  using opName_returns [of "StructValue n fs"] assms
  by (auto simp: ShortDesc_def Let_def)

text \<open>A type name that lacks the prefix or the suffix is kept as it is.\<close>

lemma opName_unconventional:
  assumes "\<not> (HasPrefix (TypeString v) prefix \<and> HasSuffix (TypeString v) suffix)"
  shows "opName v = Inr (TypeString v)"
  using assms by (auto simp: opName_def Let_def)

text \<open>A pointer to \<open>fuseops.<name>Op\<close> matches the convention, and its bare name is \<open>name\<close>.\<close>

lemma matches_convention_pointer:
  "HasPrefix (TypeString (PtrValue (StructValue (''fuseops.'' @ name @ ''Op'') fs))) prefix \<and>
   HasSuffix (TypeString (PtrValue (StructValue (''fuseops.'' @ name @ ''Op'') fs))) suffix \<and>
   opName (PtrValue (StructValue (''fuseops.'' @ name @ ''Op'') fs)) = Inr name"
  by (simp add: HasPrefix_def HasSuffix_def prefix_def suffix_def opName_def slice_def)

text \<open>
  C3 does not hold of the code. For \<open>*fuseops.InitOp\<close>, which has no \<open>Inode\<close> field,
  the bare name is \<open>Init\<close>, but \<open>ShortDesc\<close> panics in \<open>FieldByName\<close>, which is called
  on the pointer. For the same op held by value, \<open>ShortDesc\<close> returns the empty string:
  the result is assigned only when the \<open>Inode\<close> field exists.
\<close>

theorem ShortDesc_without_Inode:
  "opName (PtrValue initStruct) = Inr ''Init'' \<and>
   ShortDesc (zeroCommonOp\<lparr>op := newOp (PtrValue initStruct) [] 1\<rparr>) =
     Inl FieldByNameOnNonStruct \<and>
   opName initStruct = Inr ''fuseops.InitOp'' \<and>
   ShortDesc (zeroCommonOp\<lparr>op := newOp initStruct [] 1\<rparr>) = Inr []"
  by (simp add: initStruct_def opName_def HasPrefix_def HasSuffix_def prefix_def suffix_def
        slice_def ShortDesc_def newOp_def)

text \<open>
  C7 does not hold of the code. \<open>*fuseops.GetInodeAttributesOp\<close> matches the convention
  and has the field \<open>Inode = 42\<close>; its bare name is \<open>GetInodeAttributes\<close>, but \<open>ShortDesc\<close>
  panics in \<open>FieldByName\<close>, which is called on the pointer, and \<open>init\<close>, which calls
  \<open>ShortDesc\<close>, panics with it.
\<close>

theorem ShortDesc_conventional_with_Inode:
  "opName (PtrValue getattrStruct) = Inr ''GetInodeAttributes'' \<and>
   ShortDesc (zeroCommonOp\<lparr>op := newOp (PtrValue getattrStruct) [] 1\<rparr>) =
     Inl FieldByNameOnNonStruct \<and>
   fst (newEnvelope (PtrValue getattrStruct) [] 1 False False idle) =
     Inl FieldByNameOnNonStruct"
  by (simp add: getattrStruct_def opName_def HasPrefix_def HasSuffix_def prefix_def suffix_def
        slice_def ShortDesc_def newOp_def newEnvelope_def init_def)

section \<open>Properties of the envelope\<close>

subsection \<open>Formatting and construction\<close>

lemma Sprintf_debug_line:
  "Sprintf ''-> (%s) error: %v'' [d, m] = ''-> ('' @ d @ '') error: '' @ m"
  by simp

lemma Sprintf_error_line:
  "Sprintf ''(%s) error: %v'' [d, m] = ''('' @ d @ '') error: '' @ m"
  by simp

lemma Sprintf_inode:
  "Sprintf ''%s(inode=%v)'' [n, x] = n @ ''(inode='' @ x @ '')''"
  by simp

lemma added_append: "added w (w\<lparr>events := events w @ es\<rparr>) = es"
  by (simp add: added_def)

text \<open>
  An envelope that \<open>init\<close> returned has a short description, and its fields are the
  collaborators it was given, with the completion callback wrapped.
\<close>

lemma newEnvelope_Inr:
  assumes "newEnvelope v bytes rid dbg elog w = (Inr env, w1)"
  shows "\<exists>desc. ShortDesc env = Inr desc \<and> w1 = emit (SpanOpened desc) w \<and>
           op env = newOp v bytes rid \<and> bazilReq env = newRequest rid \<and>
           debugLog env = recDebugLog dbg \<and> errorLogger env = recErrorLogger elog \<and>
           finished env = (\<lambda>err w. recFinished err (emit (SpanReported err) w)) \<and>
           ctx env = WithSpan desc Background"
  using assms
  by (auto simp: newEnvelope_def init_def Let_def recStartSpan_def ShortDesc_def
           split: sum.splits option.splits)

text \<open>What one \<open>Respond\<close> call on such an envelope does to the record.\<close>

lemma Respond_newEnvelope:
  assumes "newEnvelope v bytes rid dbg elog w = (Inr env, w1)"
  shows "\<exists>desc. ShortDesc env = Inr desc \<and>
           (\<forall>err w'. Respond env err w' =
             (Inr (), w'\<lparr>events := events w' @
                 respondEvents desc bytes rid dbg elog (connected w') err\<rparr>))"
proof -
  from newEnvelope_Inr [OF assms] obtain desc where
    d: "ShortDesc env = Inr desc" and
    o: "op env = newOp v bytes rid" and r: "bazilReq env = newRequest rid" and
    dl: "debugLog env = recDebugLog dbg" and el: "errorLogger env = recErrorLogger elog" and
    f: "finished env = (\<lambda>err w. recFinished err (emit (SpanReported err) w))"
    by blast
  have "Respond env err w' =
          (Inr (), w'\<lparr>events := events w' @
              respondEvents desc bytes rid dbg elog (connected w') err\<rparr>)"
    for err w'
    by (cases err)
       (simp_all add: Respond_def Let_def d o r dl el f newOp_def newRequest_def send_def
          emit_def recFinished_def recDebugLog_def recErrorLogger_def Logf_def
          respondEvents_def errorLines_def replyFor_def errorPayload_def)
  with d show ?thesis by blast
qed

lemma filter_respondEvents_reply:
  "filter isReply (respondEvents desc bytes rid dbg elog up err) =
     [ReplySent rid (replyFor bytes err) up]"
  by (cases err) (simp_all add: respondEvents_def errorLines_def)

lemma filter_respondEvents_span:
  "filter isSpanReport (respondEvents desc bytes rid dbg elog up err) = [SpanReported err]"
  by (cases err) (simp_all add: respondEvents_def errorLines_def)

text \<open>The by-value \<open>GetInodeAttributesOp\<close> is accepted by \<open>init\<close>.\<close>

lemma newEnvelope_demo:
  "newEnvelope getattrStruct [1, 2] 7 dbg elog idle =
     (Inr (demoEnvelope dbg elog),
      emit (SpanOpened ''fuseops.GetInodeAttributesOp(inode=42)'') idle)"
  apply (simp add: demoEnvelope_def)
  apply (simp add: newEnvelope_def init_def Let_def recStartSpan_def ShortDesc_def
      getattrStruct_def newOp_def opName_def HasPrefix_def prefix_def)
  apply code_simp
  done

subsection \<open>Sequences of Respond calls\<close>

lemma RespondAll_newEnvelope:
  assumes "newEnvelope v bytes rid dbg elog w = (Inr env, w1)"
  shows "\<exists>es. RespondAll env errs w' = (Inr (), w'\<lparr>events := events w' @ es\<rparr>) \<and>
              filter isReply es =
                map (\<lambda>err. ReplySent rid (replyFor bytes err) (connected w')) errs"
proof (induction errs arbitrary: w')
  case Nil
  have "RespondAll env [] w' = (Inr (), w'\<lparr>events := events w' @ []\<rparr>)" by simp
  then show ?case by (intro exI [of _ "[]"]) simp
next
  case (Cons err errs)
  from Respond_newEnvelope [OF assms] obtain desc where
    R: "\<And>err w'. Respond env err w' =
         (Inr (), w'\<lparr>events := events w' @
             respondEvents desc bytes rid dbg elog (connected w') err\<rparr>)"
    by blast
  let ?es = "respondEvents desc bytes rid dbg elog (connected w') err"
  let ?w = "w'\<lparr>events := events w' @ ?es\<rparr>"
  from Cons.IH [of ?w] obtain es where
    A: "RespondAll env errs ?w = (Inr (), ?w\<lparr>events := events ?w @ es\<rparr>)" and
    F: "filter isReply es =
          map (\<lambda>err. ReplySent rid (replyFor bytes err) (connected ?w)) errs"
    by blast
  have "RespondAll env (err # errs) w' = (Inr (), w'\<lparr>events := events w' @ (?es @ es)\<rparr>)"
    by (simp add: R A)
  moreover have "filter isReply (?es @ es) =
          map (\<lambda>err. ReplySent rid (replyFor bytes err) (connected w')) (err # errs)"
    using F by (simp add: filter_respondEvents_reply)
  ultimately show ?case by blast
qed

text \<open>
  C1, as stated, fails: the envelope keeps no record of having responded, so two
  \<open>Respond\<close> calls on one envelope put two messages for request 7 on the reply channel.
\<close>

theorem Respond_twice_two_replies:
  "filter isReply (added idle (snd (RespondAll (demoEnvelope False False) [None, None] idle))) =
     [ReplySent 7 (SuccessBytes [1, 2]) True, ReplySent 7 (SuccessBytes [1, 2]) True]"
  using Respond_newEnvelope [OF newEnvelope_demo [of False False]]
  by (auto simp: added_def idle_def respondEvents_def replyFor_def)

text \<open>
  C1, amended: on an envelope that \<open>init\<close> returned, every \<open>Respond\<close> call of a sequence
  returns and submits exactly one message, which carries the envelope's request
  identifier; a sequence of n calls submits n messages, one per call and in that order.
  Exactly one message reaches the reply channel when \<open>Respond\<close> is called exactly once.
\<close>

theorem RespondAll_one_reply_per_call:
  assumes "newEnvelope v bytes rid dbg elog w = (Inr env, w1)"
      and "RespondAll env errs w' = (r, w'')"
  shows "r = Inr () \<and>
         filter isReply (added w' w'') =
           map (\<lambda>err. ReplySent rid (replyFor bytes err) (connected w')) errs \<and>
         length (filter isReply (added w' w'')) = length errs"
proof -
  from RespondAll_newEnvelope [OF assms(1), of errs w'] obtain es where
    A: "RespondAll env errs w' = (Inr (), w'\<lparr>events := events w' @ es\<rparr>)" and
    F: "filter isReply es =
          map (\<lambda>err. ReplySent rid (replyFor bytes err) (connected w')) errs"
    by blast
  from A assms(2) have "r = Inr ()" and "added w' w'' = es"
    by (auto simp: added_append)
  with F show ?thesis by simp
qed

theorem RespondAll_one_reply_per_call_witness:
  "newEnvelope getattrStruct [1, 2] 7 True True idle =
     (Inr (demoEnvelope True True),
      emit (SpanOpened ''fuseops.GetInodeAttributesOp(inode=42)'') idle) \<and>
   fst (RespondAll (demoEnvelope True True) [Some ''EIO'', None, None] idle) = Inr () \<and>
   filter isReply
     (added idle (snd (RespondAll (demoEnvelope True True) [Some ''EIO'', None, None] idle))) =
     [ReplySent 7 (ErrorCode ''EIO'') True, ReplySent 7 (SuccessBytes [1, 2]) True,
      ReplySent 7 (SuccessBytes [1, 2]) True]"
  using RespondAll_one_reply_per_call
          [OF newEnvelope_demo [of True True] surjective_pairing,
           of "[Some ''EIO'', None, None]" idle]
        newEnvelope_demo [of True True]
  by (simp add: replyFor_def idle_def)

subsection \<open>One Respond call\<close>

text \<open>An envelope that \<open>init\<close> returned holds the recording collaborators.\<close>

lemma newEnvelope_wired:
  assumes "newEnvelope v bytes rid dbg elog w = (Inr env, w1)"
  shows "wired env v bytes rid dbg elog"
  using newEnvelope_Inr [OF assms] by (auto simp: wired_def)

lemma wired_pointerEnvelope:
  "wired (pointerEnvelope dbg elog) (PtrValue getattrStruct) [1, 2] 7 dbg elog"
  by (simp add: wired_def pointerEnvelope_def)

lemma ShortDesc_demo:
  "ShortDesc (demoEnvelope dbg elog) = Inr ''fuseops.GetInodeAttributesOp(inode=42)''"
  using newEnvelope_Inr [OF newEnvelope_demo [of dbg elog]]
  by (auto simp: emit_def idle_def)

text \<open>
  On the success path \<open>Respond\<close> is the completion callback followed by the op's
  \<open>respond\<close>, whatever the collaborators and the op are; neither sink is called.
\<close>

lemma Respond_nil_any_collaborators:
  "Respond env None w = (Inr (), snd (respond (op env) (finished env None w)))"
  by (simp add: Respond_def Let_def)

text \<open>
  What one \<open>Respond\<close> call adds to the record whenever it does not have to compute a
  short description, or computes one: that is on the success path, on the error path with
  no sink, and on the error path when \<open>ShortDesc\<close> returns.
\<close>

lemma Respond_wired:
  assumes "wired env v bytes rid dbg elog"
      and "err = None \<or> (\<not> dbg \<and> \<not> elog) \<or> ShortDesc env = Inr desc"
  shows "Respond env err w' =
           (Inr (), w'\<lparr>events := events w' @
               respondEvents desc bytes rid dbg elog (connected w') err\<rparr>)"
proof (cases err)
  case None
  with assms(1) show ?thesis
    by (simp add: wired_def Respond_def Let_def newOp_def send_def emit_def recFinished_def
          respondEvents_def replyFor_def)
next
  case (Some msg)
  show ?thesis
  proof (cases "\<not> dbg \<and> \<not> elog")
    case True
    with assms(1) Some show ?thesis
      by (simp add: wired_def Respond_def Let_def newRequest_def send_def emit_def
            recFinished_def recDebugLog_def recErrorLogger_def respondEvents_def
            errorLines_def replyFor_def errorPayload_def)
  next
    case False
    with assms(2) Some have d: "ShortDesc env = Inr desc" by simp
    with assms(1) Some show ?thesis
      by (simp add: wired_def Respond_def Let_def newRequest_def send_def emit_def
            recFinished_def recDebugLog_def recErrorLogger_def Logf_def respondEvents_def
            errorLines_def replyFor_def errorPayload_def)
  qed
qed

text \<open>
  On a pointer op with a sink configured, \<open>Respond\<close> with a non-nil error calls the
  completion callback and then panics in \<open>ShortDesc\<close>: no sink and no reply function is
  called, whatever the collaborators are.
\<close>

lemma Respond_pointer_sink_panics:
  assumes "ValueOf (op env) = PtrValue v"
      and "debugLog env \<noteq> None \<or> errorLogger env \<noteq> None"
  shows "Respond env (Some msg) w = (Inl FieldByNameOnNonStruct, finished env (Some msg) w)"
  using assms ShortDesc_pointer [OF assms(1)]
  by (auto simp: Respond_def Let_def)

text \<open>
  Where \<open>Respond\<close> gets past the short description, one call puts exactly one message on
  the reply channel (the op's encoded success response when \<open>err\<close> is nil, an error reply
  otherwise), completes the trace span exactly once, and the span completion and every
  log line come before the reply.
\<close>

lemma Respond_once_effects:
  assumes "wired env v bytes rid dbg elog"
      and "err = None \<or> (\<not> dbg \<and> \<not> elog) \<or> ShortDesc env = Inr desc"
      and "Respond env err w' = (r, w'')"
  shows "r = Inr () \<and>
         filter isReply (added w' w'') = [ReplySent rid (replyFor bytes err) (connected w')] \<and>
         filter isSpanReport (added w' w'') = [SpanReported err] \<and>
         (\<exists>before. added w' w'' = before @ [ReplySent rid (replyFor bytes err) (connected w')] \<and>
                    filter isSpanReport before = [SpanReported err] \<and>
                    filter isLogLine before = filter isLogLine (added w' w'') \<and>
                    filter isReply before = [])"
proof -
  from Respond_wired [OF assms(1,2)] assms(3) have r: "r = Inr ()"
    and a: "added w' w'' = respondEvents desc bytes rid dbg elog (connected w') err"
    by (auto simp: added_append)
  let ?before = "[SpanReported err, BaseFinished err] @
     (case err of None \<Rightarrow> [] | Some msg \<Rightarrow> errorLines dbg elog desc msg)"
  have b: "added w' w'' = ?before @ [ReplySent rid (replyFor bytes err) (connected w')]"
    by (simp add: a respondEvents_def)
  have "filter isSpanReport ?before = [SpanReported err]"
    by (cases err) (simp_all add: errorLines_def)
  moreover have "filter isLogLine ?before = filter isLogLine (added w' w'')"
    by (simp add: b isLogLine_def)
  moreover have "filter isReply ?before = []"
    by (cases err) (simp_all add: errorLines_def)
  ultimately show ?thesis
    using r a b filter_respondEvents_reply filter_respondEvents_span by metis
qed

text \<open>
  C2 does not hold of the code. On an envelope around \<open>*fuseops.GetInodeAttributesOp\<close>
  with both sinks configured, \<open>Respond\<close> with the error \<open>EIO\<close> completes the span, calls
  the base callback and then panics in \<open>ShortDesc\<close>, whose \<open>FieldByName\<close> is called on
  the pointer: the operands of the log call are evaluated before the reply is submitted,
  so no message is put on the reply channel.
\<close>

theorem Respond_sink_on_pointer_op_sends_no_reply:
  "fst (Respond (pointerEnvelope True True) (Some ''EIO'') idle) = Inl FieldByNameOnNonStruct \<and>
   added idle (snd (Respond (pointerEnvelope True True) (Some ''EIO'') idle)) =
     [SpanReported (Some ''EIO''), BaseFinished (Some ''EIO'')] \<and>
   filter isReply (added idle (snd (Respond (pointerEnvelope True True) (Some ''EIO'') idle))) = []"
  by (simp add: Respond_pointer_sink_panics [of _ getattrStruct] pointerEnvelope_def newOp_def
        recDebugLog_def recFinished_def emit_def added_def idle_def)

text \<open>
  C4, as stated, fails: \<open>Respond\<close> has no result, and it drops what the reply channel
  hands back. With the connection gone the one submission is not delivered, and \<open>Respond\<close>
  returns to its caller exactly as it does when the reply is delivered.
\<close>

theorem Respond_delivery_failure_not_reported:
  "fst (send 7 (ErrorCode ''EIO'') gone) = Some ''ENOTCONN'' \<and>
   filter isReply (added gone (snd (Respond (demoEnvelope False False) (Some ''EIO'') gone))) =
     [ReplySent 7 (ErrorCode ''EIO'') False] \<and>
   fst (Respond (demoEnvelope False False) (Some ''EIO'') gone) = Inr () \<and>
   fst (Respond (demoEnvelope False False) (Some ''EIO'') gone) =
     fst (Respond (demoEnvelope False False) (Some ''EIO'') idle)"
  using Respond_newEnvelope [OF newEnvelope_demo [of False False]]
  by (auto simp: added_def gone_def idle_def respondEvents_def replyFor_def send_def errorLines_def)

text \<open>
  C4, amended: on the success path, on the error path with no sink configured, and on the
  error path whenever \<open>ShortDesc\<close> returns a description (as it does on every envelope
  that \<open>init\<close> returned), for any op: when the reply channel fails to deliver, \<open>Respond\<close>
  has submitted the reply exactly once and does not submit it again, and \<open>Respond\<close>, which
  has no result, returns normally and reports nothing to its caller.
\<close>

theorem Respond_failed_delivery_once:
  assumes "wired env v bytes rid dbg elog"
      and "err = None \<or> (\<not> dbg \<and> \<not> elog) \<or> ShortDesc env = Inr desc"
      and "\<not> connected w'"
      and "Respond env err w' = (r, w'')"
  shows "fst (send rid (replyFor bytes err) w') \<noteq> None \<and>
         filter isReply (added w' w'') = [ReplySent rid (replyFor bytes err) False] \<and>
         r = Inr ()"
proof -
  from Respond_wired [OF assms(1,2)] assms(4) have "r = Inr ()"
    and "added w' w'' = respondEvents desc bytes rid dbg elog (connected w') err"
    by (auto simp: added_append)
  then show ?thesis
    using assms(3) by (simp add: filter_respondEvents_reply send_def)
qed

theorem Respond_failed_delivery_once_witness:
  "wired (pointerEnvelope True True) (PtrValue getattrStruct) [1, 2] 7 True True \<and>
   \<not> connected gone \<and>
   filter isReply (added gone (snd (Respond (pointerEnvelope True True) None gone))) =
     [ReplySent 7 (SuccessBytes [1, 2]) False] \<and>
   fst (Respond (pointerEnvelope True True) None gone) = Inr () \<and>
   wired (pointerEnvelope False False) (PtrValue getattrStruct) [1, 2] 7 False False \<and>
   filter isReply (added gone (snd (Respond (pointerEnvelope False False) (Some ''EIO'') gone))) =
     [ReplySent 7 (ErrorCode ''EIO'') False] \<and>
   fst (Respond (pointerEnvelope False False) (Some ''EIO'') gone) = Inr () \<and>
   wired (demoEnvelope True True) getattrStruct [1, 2] 7 True True \<and>
   ShortDesc (demoEnvelope True True) = Inr ''fuseops.GetInodeAttributesOp(inode=42)'' \<and>
   filter isReply (added gone (snd (Respond (demoEnvelope True True) (Some ''EIO'') gone))) =
     [ReplySent 7 (ErrorCode ''EIO'') False] \<and>
   fst (Respond (demoEnvelope True True) (Some ''EIO'') gone) = Inr ()"
  using Respond_failed_delivery_once
          [OF wired_pointerEnvelope [of True True] _ _ surjective_pairing,
           of None "[]" gone]
        Respond_failed_delivery_once
          [OF wired_pointerEnvelope [of False False] _ _ surjective_pairing,
           of "Some ''EIO''" "[]" gone]
        Respond_failed_delivery_once
          [OF newEnvelope_wired [OF newEnvelope_demo [of True True]] _ _ surjective_pairing,
           of "Some ''EIO''" "''fuseops.GetInodeAttributesOp(inode=42)''" gone]
        wired_pointerEnvelope [of True True] wired_pointerEnvelope [of False False]
        newEnvelope_wired [OF newEnvelope_demo [of True True]] ShortDesc_demo [of True True]
  by (simp add: replyFor_def gone_def)

text \<open>
  Where \<open>ShortDesc\<close> returns, or no sink is configured, \<open>Respond\<close> with a non-nil error
  returns, submits exactly one error reply under the envelope's request identifier, and
  writes to each sink that is configured, independently of the other, one line made of the
  short description and the error text.
\<close>

lemma Respond_error_path:
  assumes "wired env v bytes rid dbg elog"
      and "(\<not> dbg \<and> \<not> elog) \<or> ShortDesc env = Inr desc"
      and "Respond env (Some msg) w' = (r, w'')"
  shows "r = Inr () \<and>
         filter isReply (added w' w'') = [ReplySent rid (ErrorCode msg) (connected w')] \<and>
         filter isDebugLine (added w' w'') =
           (if dbg then [DebugLine 2 (''-> ('' @ desc @ '') error: '' @ msg)] else []) \<and>
         filter isErrorLine (added w' w'') =
           (if elog then [ErrorLine (''('' @ desc @ '') error: '' @ msg)] else [])"
proof -
  from assms(2) have "Some msg = None \<or> (\<not> dbg \<and> \<not> elog) \<or> ShortDesc env = Inr desc"
    by simp
  from Respond_wired [OF assms(1) this] assms(3) have r: "r = Inr ()"
    and a: "added w' w'' = respondEvents desc bytes rid dbg elog (connected w') (Some msg)"
    by (auto simp: added_append)
  show ?thesis
    by (simp add: r a respondEvents_def errorLines_def replyFor_def)
qed

text \<open>
  C5 does not hold of the code. On an envelope around \<open>*fuseops.GetInodeAttributesOp\<close>
  with a sink configured (the error logger alone, or the debug sink alone), \<open>Respond\<close>
  with the error \<open>EIO\<close> panics in \<open>ShortDesc\<close>, whose \<open>FieldByName\<close> is called on the
  pointer, before the line is written and before the reply is submitted: the sink gets no
  line and the reply channel no error reply. With both sinks absent the same call returns
  and submits its one reply.
\<close>

theorem Respond_error_on_pointer_op_writes_no_line:
  "fst (Respond (pointerEnvelope False True) (Some ''EIO'') idle) = Inl FieldByNameOnNonStruct \<and>
   filter isErrorLine (added idle (snd (Respond (pointerEnvelope False True) (Some ''EIO'') idle))) = [] \<and>
   filter isReply (added idle (snd (Respond (pointerEnvelope False True) (Some ''EIO'') idle))) = [] \<and>
   fst (Respond (pointerEnvelope True False) (Some ''EIO'') idle) = Inl FieldByNameOnNonStruct \<and>
   filter isDebugLine (added idle (snd (Respond (pointerEnvelope True False) (Some ''EIO'') idle))) = [] \<and>
   filter isReply (added idle (snd (Respond (pointerEnvelope True False) (Some ''EIO'') idle))) = [] \<and>
   Respond (pointerEnvelope False False) (Some ''EIO'') idle =
     (Inr (), idle\<lparr>events := [SpanReported (Some ''EIO''), BaseFinished (Some ''EIO''),
                               ReplySent 7 (ErrorCode ''EIO'') True]\<rparr>)"
  using Respond_wired [OF wired_pointerEnvelope [of False False], of "Some ''EIO''" "[]" idle]
  by (simp add: Respond_pointer_sink_panics [of _ getattrStruct] pointerEnvelope_def newOp_def
        recDebugLog_def recErrorLogger_def recFinished_def emit_def added_def idle_def
        respondEvents_def errorLines_def replyFor_def)

text \<open>
  C10: on every envelope, whatever its op and whichever sinks are configured, \<open>Respond\<close>
  with a nil error returns and writes no line to the debug sink and none to the error
  logger: the call adds the span completion, the base callback and the success reply only.
\<close>

theorem Respond_success_path_no_lines:
  assumes "wired env v bytes rid dbg elog"
      and "Respond env None w' = (r, w'')"
  shows "r = Inr () \<and>
         added w' w'' =
           [SpanReported None, BaseFinished None,
            ReplySent rid (SuccessBytes bytes) (connected w')] \<and>
         filter isDebugLine (added w' w'') = [] \<and>
         filter isErrorLine (added w' w'') = []"
proof -
  from Respond_wired [OF assms(1), of None "[]" w'] assms(2) have "r = Inr ()"
    and "added w' w'' = respondEvents [] bytes rid dbg elog (connected w') None"
    by (auto simp: added_append)
  then show ?thesis by (simp add: respondEvents_def replyFor_def)
qed

theorem Respond_success_path_no_lines_witness:
  "wired (pointerEnvelope True True) (PtrValue getattrStruct) [1, 2] 7 True True \<and>
   debugLog (pointerEnvelope True True) \<noteq> None \<and>
   errorLogger (pointerEnvelope True True) \<noteq> None \<and>
   fst (Respond (pointerEnvelope True True) None idle) = Inr () \<and>
   added idle (snd (Respond (pointerEnvelope True True) None idle)) =
     [SpanReported None, BaseFinished None, ReplySent 7 (SuccessBytes [1, 2]) True]"
  using Respond_success_path_no_lines
          [OF wired_pointerEnvelope [of True True] surjective_pairing, of idle]
        wired_pointerEnvelope [of True True]
  by (simp add: idle_def pointerEnvelope_def recDebugLog_def recErrorLogger_def)

subsection \<open>The completion callback\<close>

lemma ShortDesc_finished_update: "ShortDesc (env\<lparr>finished := f\<rparr>) = ShortDesc env"
  by (simp add: ShortDesc_def)

lemma Logf_finished_update: "Logf (env\<lparr>finished := f\<rparr>) = Logf env"
  by (simp add: Logf_def fun_eq_iff)

text \<open>\<open>Respond\<close> calls \<open>finished\<close> with its own argument before anything else.\<close>

lemma Respond_finished_first:
  "Respond env err w = Respond (env\<lparr>finished := (\<lambda>err w. w)\<rparr>) err (finished env err w)"
  by (simp add: Respond_def Let_def ShortDesc_finished_update Logf_finished_update
           cong: if_cong option.case_cong sum.case_cong prod.case_cong)

text \<open>
  C6: whatever the trace provider and the base callback are, after \<open>init\<close> has returned
  the envelope's \<open>finished\<close> applied to \<open>err\<close> first calls the report function that
  \<open>StartSpan\<close> returned with \<open>err\<close> and then the base callback with the same \<open>err\<close>, and
  \<open>Respond err\<close> is these two calls, with \<open>err\<close>, followed by the rest of \<open>Respond\<close>.
\<close>

theorem init_chains_finished:
  assumes "init StartSpan env0 c op' req dl el prevFinish w = (Inr env, w1)"
  shows "\<exists>desc c2 reportForTrace.
           ShortDesc env = Inr desc \<and>
           StartSpan c desc w = ((c2, reportForTrace), w1) \<and>
           (\<forall>err w'. finished env err w' = prevFinish err (reportForTrace err w')) \<and>
           (\<forall>err w'. Respond env err w' =
              Respond (env\<lparr>finished := (\<lambda>err w. w)\<rparr>) err
                (prevFinish err (reportForTrace err w')))"
proof -
  let ?env1 = "env0\<lparr>ctx := c, op := op', bazilReq := req, debugLog := dl,
                    errorLogger := el, finished := prevFinish\<rparr>"
  from assms obtain desc where d: "ShortDesc ?env1 = Inr desc"
    by (cases "ShortDesc ?env1") (simp_all add: init_def Let_def)
  obtain c2 reportForTrace w2 where s: "StartSpan c desc w = ((c2, reportForTrace), w2)"
    by (metis surj_pair)
  from assms d s have e: "env = ?env1\<lparr>ctx := c2,
        finished := (\<lambda>err w. prevFinish err (reportForTrace err w))\<rparr>" and w: "w1 = w2"
    by (simp_all add: init_def Let_def)
  have "ShortDesc env = Inr desc"
    using d by (simp add: e ShortDesc_def)
  moreover have f: "finished env err w' = prevFinish err (reportForTrace err w')" for err w'
    by (simp add: e)
  moreover have "Respond env err w' =
              Respond (env\<lparr>finished := (\<lambda>err w. w)\<rparr>) err
                (prevFinish err (reportForTrace err w'))" for err w'
    using Respond_finished_first [of env err w'] by (simp add: f)
  ultimately show ?thesis using s w by blast
qed

theorem init_chains_finished_witness:
  "newEnvelope getattrStruct [1, 2] 7 False False idle =
     (Inr (demoEnvelope False False),
      emit (SpanOpened ''fuseops.GetInodeAttributesOp(inode=42)'') idle) \<and>
   added idle (finished (demoEnvelope False False) (Some ''EIO'') idle) =
     [SpanReported (Some ''EIO''), BaseFinished (Some ''EIO'')]"
  using init_chains_finished
          [OF newEnvelope_demo [of False False, unfolded newEnvelope_def]]
        newEnvelope_demo [of False False]
  by (auto simp: recStartSpan_def recFinished_def emit_def added_def idle_def)

section \<open>Properties of the matchers\<close>

text \<open>
  C8: for a file-info value whose \<open>Sys()\<close> yields no birth time the matcher succeeds
  whatever the expected time is, and the matcher fails exactly when the value is not a
  file-info value or a birth time is extracted that differs from the expected time.
\<close>

theorem birthtimeIs_no_birthtime:
  "(extractBirthtime (Sys fi) = None \<longrightarrow> birthtimeIs extractBirthtime (IsFileInfo fi) expected = None) \<and>
   (birthtimeIs extractBirthtime c expected \<noteq> None) =
     ((\<exists>ty. c = Other ty) \<or>
      (\<exists>fi b. c = IsFileInfo fi \<and> extractBirthtime (Sys fi) = Some b \<and> b \<noteq> expected))"
  by (auto simp: birthtimeIs_def split: candidate.splits option.splits)

theorem birthtimeIs_no_birthtime_witness:
  "birthtimeIs (\<lambda>s. s) (IsFileInfo \<lparr>ModTime = early, Sys = None\<rparr>) late = None \<and>
   birthtimeIs (\<lambda>s. s) (IsFileInfo \<lparr>ModTime = early, Sys = Some early\<rparr>) late \<noteq> None \<and>
   birthtimeIs (\<lambda>s. s) (IsFileInfo \<lparr>ModTime = early, Sys = Some late\<rparr>) late = None"
  using birthtimeIs_no_birthtime
          [where extractBirthtime = "\<lambda>s. s" and fi = "\<lparr>ModTime = early, Sys = None\<rparr>"
             and expected = late
             and c = "IsFileInfo \<lparr>ModTime = early, Sys = Some early\<rparr>"]
        birthtimeIs_no_birthtime
          [where extractBirthtime = "\<lambda>s. s" and fi = "\<lparr>ModTime = early, Sys = None\<rparr>"
             and expected = late
             and c = "IsFileInfo \<lparr>ModTime = early, Sys = Some late\<rparr>"]
  by (simp add: early_def late_def)

subsection \<open>Reading a Duration\<close>

lemma sint_word_of_int_64:
  "- (2 ^ 63) \<le> x \<Longrightarrow> x < 2 ^ 63 \<Longrightarrow> sint (word_of_int x :: 64 word) = x"
  by (simp add: sint_sbintrunc' signed_take_bit_int_eq_self)

lemma sint_bounds_64: "- (2 ^ 63) \<le> sint (d :: 64 word) \<and> sint d < 2 ^ 63"
  using sint_ge [of d] sint_lt [of d] by simp

lemma sint_Sub:
  "sint (Sub t u) =
     (if nanos t - nanos u < - (2 ^ 63) then - (2 ^ 63)
      else if 2 ^ 63 - 1 < nanos t - nanos u then 2 ^ 63 - 1
      else nanos t - nanos u)"
proof -
  have m: "sint (word_of_int (- (2 ^ 63)) :: 64 word) = - (2 ^ 63)"
    by (rule sint_word_of_int_64) simp_all
  have M: "sint (word_of_int (2 ^ 63 - 1) :: 64 word) = 2 ^ 63 - 1"
    by (rule sint_word_of_int_64) simp_all
  have "sint (word_of_int (nanos t - nanos u) :: 64 word) = nanos t - nanos u"
    if "\<not> nanos t - nanos u < - (2 ^ 63)" "\<not> 2 ^ 63 - 1 < nanos t - nanos u"
    using that by (intro sint_word_of_int_64) linarith+
  then show ?thesis
    unfolding Sub_def Let_def minDuration_def maxDuration_def
    using m M by (simp del: of_int_diff)
qed

lemma sint_neg_64:
  "- (2 ^ 63) < sint (x :: 64 word) \<Longrightarrow> sint (- x) = - sint x"
  using sint_bounds_64 [of x]
  by (simp add: sint_word_minus signed_take_bit_int_eq_self)

lemma sint_absDiff:
  assumes "- (2 ^ 63) < nanos t - nanos u"
  shows "sint (if Sub t u <s 0 then - Sub t u else Sub t u) =
           min \<bar>nanos t - nanos u\<bar> (2 ^ 63 - 1)"
proof -
  have s: "sint (Sub t u) = (if 2 ^ 63 - 1 < nanos t - nanos u then 2 ^ 63 - 1 else nanos t - nanos u)"
    using assms by (simp add: sint_Sub)
  then have "- (2 ^ 63) < sint (Sub t u)" using assms by (simp split: if_splits)
  then have n: "sint (- Sub t u) = - sint (Sub t u)" by (rule sint_neg_64)
  show ?thesis
    using assms by (simp add: word_sless_alt n s)
qed

text \<open>
  C9 does not hold of the code. When the mtime lies \<open>2 ^ 63\<close> ns or more before the
  expected time, \<open>Sub\<close> returns the minimum Duration, whose negation wraps around to
  itself, so \<open>absDiff\<close> is negative and below every tolerance but the minimum. \<open>MtimeIs\<close>,
  whose tolerance is 0, then accepts the file, though the absolute difference is not
  below 0 and the mtime is not equal to the expected time.
\<close>

theorem MtimeIs_accepts_far_earlier_mtime:
  "MtimeIs late (IsFileInfo \<lparr>ModTime = early, Sys = ()\<rparr>) = None \<and>
   \<not> \<bar>nanos early - nanos late\<bar> < sint (0 :: Duration)"
  by (simp add: MtimeIs_def mtimeIsWithin_def Sub_def minDuration_def early_def late_def
        word_sless_alt)

text \<open>
  For a file-info value whose mtime lies less than \<open>2 ^ 63\<close> ns before the expected
  time, the negation does not wrap: the mtime matcher accepts if and only if the absolute
  difference is strictly less than the tolerance, and \<open>MtimeIs\<close> rejects the value, also
  when the two times are equal.
\<close>

lemma mtimeIsWithin_in_range:
  assumes "- (2 ^ 63) < nanos (ModTime fi) - nanos expected"
  shows "(mtimeIsWithin (IsFileInfo fi) expected d = None) =
           (\<bar>nanos (ModTime fi) - nanos expected\<bar> < sint d) \<and>
         MtimeIs expected (IsFileInfo fi) \<noteq> None"
proof -
  have a: "sint (if Sub (ModTime fi) expected <s 0 then - Sub (ModTime fi) expected
                 else Sub (ModTime fi) expected) =
           min \<bar>nanos (ModTime fi) - nanos expected\<bar> (2 ^ 63 - 1)"
    using assms by (rule sint_absDiff)
  have "(mtimeIsWithin (IsFileInfo fi) expected d = None) =
          (min \<bar>nanos (ModTime fi) - nanos expected\<bar> (2 ^ 63 - 1) < sint d)" for d
    unfolding mtimeIsWithin_def Let_def word_sless_alt [of _ d] a [symmetric]
    by simp
  then show ?thesis
    using sint_bounds_64 [of d] by (auto simp: MtimeIs_def min_def)
qed

lemma mtimeIsWithin_in_range_example:
  "- (2 ^ 63) < nanos (ModTime \<lparr>ModTime = early, Sys = ()\<rparr>) - nanos early \<and>
   mtimeIsWithin (IsFileInfo \<lparr>ModTime = early, Sys = ()\<rparr>) early 1 = None \<and>
   MtimeIs early (IsFileInfo \<lparr>ModTime = early, Sys = ()\<rparr>) \<noteq> None"
  using mtimeIsWithin_in_range [of "\<lparr>ModTime = early, Sys = ()\<rparr>" early 1]
  by (simp add: early_def)

end
